theory Spec2Isabelle
  imports Main "HOL-Library.AList" "HOL-Library.Multiset" "HOL-Library.Sublist"
begin

section \<open>Data model of pkg/compose/watch.go\<close>

text \<open>
  \<open>WatchAction\<close> is a Go string type; a trigger's action is an arbitrary string that
  \<open>maybeFileEvent\<close> casts to it, so the model keeps it a string.
\<close>

type_synonym WatchAction = string

definition WatchActionSync :: WatchAction where
  "WatchActionSync = ''sync''"

definition WatchActionRebuild :: WatchAction where
  "WatchActionRebuild = ''rebuild''"

record Trigger =
  Path :: string
  Action :: string
  Target :: string
  Ignore :: "string list"

text \<open>\<open>sync.PathMapping\<close>: the pair handed to the sync collaborator.\<close>

record PathMapping =
  HostPath :: string
  ContainerPath :: string

text \<open>
  \<open>fileEvent\<close> embeds \<open>sync.PathMapping\<close> and adds the action. Go compares two
  such structs field by field, which is HOL equality on the record. The embedded struct
  is the field \<open>mapping\<close>; the field \<open>Action\<close> is written \<open>action\<close> here, since
  \<open>Action\<close> is the field of \<open>Trigger\<close>.
\<close>

record fileEvent =
  mapping :: PathMapping
  action :: WatchAction

text \<open>Go errors built by this file, and the opaque errors of its collaborators.\<close>

datatype error =
    NoBuildContext string
  | NotConfiguredForWatch
  | ResolvingSymlink string error
  | MustDefinePath
  | RebuildWithoutBuild string
  | External string

text \<open>
  Formatted output is recorded as the format string with its arguments; \<open>fmt\<close>'s
  rendering of the verbs is not modelled.
\<close>

datatype farg = S string | N nat | L "string list" | E error

datatype stream = Stdinfo | Stderr

datatype level = Warn | Debug

text \<open>
  The options of \<open>s.Up\<close> that the dispatcher sets. Each of the three structs has a
  field \<open>Services\<close>, told apart here by a prefix. \<open>Start.Project\<close> is the project
  pointer that the dispatcher was given, and is left out.
\<close>

record BuildOptions =
  Pull :: bool
  Push :: bool
  BuildServices :: "string list"

record CreateOptions =
  Build :: BuildOptions
  CreateServices :: "string list"
  Inherit :: bool

record StartOptions =
  StartServices :: "string list"

record UpOptions =
  Create :: CreateOptions
  Start :: StartOptions

record ServiceVolumeBind =
  CreateHostPath :: bool

record ServiceVolumeConfig =
  Source :: string
  Bind :: "ServiceVolumeBind option"

record BuildConfig =
  Context :: string

text \<open>
  The fields of \<open>types.ServiceConfig\<close> that watch.go reads or writes. \<open>SBuild\<close> is
  the pointer \<open>service.Build\<close>, \<open>None\<close> for nil. \<open>XDevelop\<close> is the lookup
  \<open>service.Extensions["x-develop"]\<close>: \<open>None\<close> when the key is absent, otherwise the
  undecoded value.
\<close>

record 'y ServiceConfig =
  Name :: string
  SBuild :: "BuildConfig option"
  XDevelop :: "'y option"
  Volumes :: "ServiceVolumeConfig list"
  PullPolicy :: string

text \<open>Everything the functions do besides returning, in the order it happens.\<close>

datatype 'y effect =
    Fprintf stream string "farg list"
  | Logf level string "farg list"
  | Up UpOptions
  | GetService string
  | Sync "'y ServiceConfig" "PathMapping list"
  | NewWatcher "string list"
  | WatcherStart "string list"
  | Go string "Trigger list"

section \<open>strings\<close>

fun strings_Join :: "string list \<Rightarrow> string \<Rightarrow> string" where
  "strings_Join [] sep = []"
| "strings_Join [x] sep = x"
| "strings_Join (x # y # xs) sep = x @ sep @ strings_Join (y # xs) sep"

definition strings_HasPrefix :: "string \<Rightarrow> string \<Rightarrow> bool" where
  "strings_HasPrefix s pre = (length pre \<le> length s \<and> take (length pre) s = pre)"

section \<open>checkIfPathAlreadyBindMounted\<close>

fun checkIfPathAlreadyBindMounted :: "string \<Rightarrow> ServiceVolumeConfig list \<Rightarrow> bool" where
  "checkIfPathAlreadyBindMounted watchPath [] = False"
| "checkIfPathAlreadyBindMounted watchPath (volume # volumes) =
     (if Bind volume \<noteq> None \<and> strings_HasPrefix watchPath (Source volume) then True
      else checkIfPathAlreadyBindMounted watchPath volumes)"

text \<open>
  The loop of \<open>Watch\<close> that collects the paths handed to the filesystem watcher: a
  trigger whose path is reported as bind mounted is skipped with a warning.
\<close>

fun watchPaths ::
  "Trigger list \<Rightarrow> ServiceVolumeConfig list \<Rightarrow> 'y effect list \<Rightarrow> string list \<Rightarrow>
     'y effect list \<times> string list" where
  "watchPaths [] volumes fx paths = (fx, paths)"
| "watchPaths (trigger # triggers) volumes fx paths =
     (if checkIfPathAlreadyBindMounted (Path trigger) volumes then
        watchPaths triggers volumes
          (fx @ [Logf Warn ''path '%s' also declared by a bind mount volume, this path won't be monitored!\<newline>''
                   [S (Path trigger)]])
          paths
      else watchPaths triggers volumes fx (paths @ [Path trigger]))"

section \<open>handleWatchBatch\<close>

definition rebuildOptions :: "string \<Rightarrow> UpOptions" where
  "rebuildOptions serviceName =
     \<lparr>Create = \<lparr>Build = \<lparr>Pull = False, Push = False, BuildServices = [serviceName]\<rparr>,
                CreateServices = [serviceName], Inherit = True\<rparr>,
      Start = \<lparr>StartServices = [serviceName]\<rparr>\<rparr>"

definition maxPathsToShow :: nat where
  "maxPathsToShow = 10"

text \<open>\<open>debug\<close> is \<open>logrus.IsLevelEnabled(logrus.DebugLevel)\<close>.\<close>

definition writeWatchSyncMessage :: "bool \<Rightarrow> string \<Rightarrow> PathMapping list \<Rightarrow> 'y effect" where
  "writeWatchSyncMessage debug serviceName pathMappings =
     (if length pathMappings \<le> maxPathsToShow \<or> debug then
        Fprintf Stdinfo ''Syncing %s after changes were detected:%s\<newline>''
          [S serviceName, S (strings_Join ([] # map HostPath pathMappings) ''\<newline>  - '')]
      else
        Fprintf Stdinfo ''Syncing %s after %d changes were detected\<newline>''
          [S serviceName, N (length pathMappings)])"

text \<open>
  The collaborators of the dispatcher: \<open>up\<close> is \<open>s.Up\<close>, \<open>getService\<close> is
  \<open>project.GetService\<close>, \<open>sync\<close> is \<open>syncer.Sync\<close>. Each returns Go's error value,
  \<open>None\<close> for nil.
\<close>

record 'y collaborators =
  up :: "UpOptions \<Rightarrow> error option"
  getService :: "string \<Rightarrow> error + 'y ServiceConfig"
  sync :: "'y ServiceConfig \<Rightarrow> PathMapping list \<Rightarrow> error option"
  debugEnabled :: bool

text \<open>
  The loop over the batch, with the path mappings filled so far. The slots of
  \<open>pathMappings\<close> beyond the current index are read only after the loop has filled
  all of them, so the model grows the list instead of preallocating it.
\<close>

fun handleWatchBatchLoop ::
  "'y collaborators \<Rightarrow> string \<Rightarrow> fileEvent list \<Rightarrow> PathMapping list \<Rightarrow>
     'y effect list \<times> error option" where
  "handleWatchBatchLoop c serviceName [] pathMappings =
     (case getService c serviceName of
        Inl err \<Rightarrow>
          ([writeWatchSyncMessage (debugEnabled c) serviceName pathMappings,
            GetService serviceName], Some err)
      | Inr service \<Rightarrow>
          ([writeWatchSyncMessage (debugEnabled c) serviceName pathMappings,
            GetService serviceName, Sync service pathMappings],
           sync c service pathMappings))"
| "handleWatchBatchLoop c serviceName (e # es) pathMappings =
     (if action e = WatchActionRebuild then
        ([Fprintf Stdinfo ''Rebuilding %s after changes were detected:%s\<newline>''
            [S serviceName, S (strings_Join ([] # [HostPath (mapping e)]) ''\<newline>  - '')],
          Up (rebuildOptions serviceName)]
         @ (case up c (rebuildOptions serviceName) of
              Some err \<Rightarrow> [Fprintf Stderr ''Application failed to start after update\<newline>'' []]
            | None \<Rightarrow> []),
         None)
      else handleWatchBatchLoop c serviceName es (pathMappings @ [mapping e]))"

definition handleWatchBatch ::
  "'y collaborators \<Rightarrow> string \<Rightarrow> fileEvent list \<Rightarrow> 'y effect list \<times> error option" where
  "handleWatchBatch c serviceName batch = handleWatchBatchLoop c serviceName batch []"

fun isUp :: "'y effect \<Rightarrow> bool" where
  "isUp (Up opts) = True"
| "isUp other = False"

fun isSync :: "'y effect \<Rightarrow> bool" where
  "isSync (Sync service pathMappings) = True"
| "isSync other = False"


section \<open>Lexical path functions of the Go standard library\<close>

text \<open>
  watch.go calls \<open>path.Join\<close>, \<open>filepath.IsAbs\<close>, \<open>filepath.Join\<close>,
  \<open>filepath.Clean\<close> and \<open>filepath.Rel\<close>. Package \<open>path\<close> always works with the
  slash. Package \<open>filepath\<close> works with the separator of the host: \<open>Clean\<close> and
  \<open>Rel\<close> take the host as a parameter, while \<open>IsAbs\<close> and \<open>Join\<close> are those of a
  Unix host, the host on which \<open>loadDevelopmentConfig\<close> is modelled.

  \<open>path.Clean\<close> follows the library's loop: \<open>out\<close> is the buffer written so far and
  \<open>dotdot\<close> the index where a \<open>..\<close> element must stop backtracking.
\<close>

text \<open>The byte at an index of a string, if the index is in range.\<close>

definition byte :: "string \<Rightarrow> nat \<Rightarrow> char option" where
  "byte s i = (if i < length s then Some (s ! i) else None)"

function backtrack :: "string \<Rightarrow> nat \<Rightarrow> nat \<Rightarrow> nat" where
  "backtrack out dotdot w =
     (if w > dotdot \<and> byte out w \<noteq> Some (CHR ''/'') then backtrack out dotdot (w - 1)
      else w)"
  by pat_completeness auto
termination
  by (relation "measure (\<lambda>(out, dotdot, w). w)") auto

declare backtrack.simps [simp del]

function cleanLoop :: "bool \<Rightarrow> string \<Rightarrow> string \<Rightarrow> nat \<Rightarrow> string" where
  "cleanLoop rooted [] out dotdot = out"
| "cleanLoop rooted (c # cs) out dotdot =
     (if c = CHR ''/'' then cleanLoop rooted cs out dotdot
      else if c = CHR ''.'' \<and> (cs = [] \<or> byte cs 0 = Some (CHR ''/'')) then
        cleanLoop rooted cs out dotdot
      else if c = CHR ''.'' \<and> byte cs 0 = Some (CHR ''.'')
              \<and> (length cs = 1 \<or> byte cs 1 = Some (CHR ''/'')) then
        (if length out > dotdot then
           cleanLoop rooted (tl cs) (take (backtrack out dotdot (length out - 1)) out) dotdot
         else if \<not> rooted then
           cleanLoop rooted (tl cs) ((if length out > 0 then out @ ''/'' else out) @ ''..'')
             (length ((if length out > 0 then out @ ''/'' else out) @ ''..''))
         else cleanLoop rooted (tl cs) out dotdot)
      else
        cleanLoop rooted (dropWhile (\<lambda>x. x \<noteq> CHR ''/'') (c # cs))
          ((if rooted \<and> length out \<noteq> 1 \<or> \<not> rooted \<and> length out \<noteq> 0 then out @ ''/'' else out)
             @ takeWhile (\<lambda>x. x \<noteq> CHR ''/'') (c # cs))
          dotdot)"
  by pat_completeness auto
termination
  by (relation "measure (\<lambda>(rooted, rest, out, dotdot). length rest)")
    (auto simp: le_imp_less_Suc length_dropWhile_le)

definition path_Clean :: "string \<Rightarrow> string" where
  "path_Clean path =
     (if path = [] then ''.''
      else
        (let rooted = (byte path 0 = Some (CHR ''/''));
             out = (if rooted then cleanLoop rooted (tl path) ''/'' 1
                    else cleanLoop rooted path [] 0)
         in if length out = 0 then ''.'' else out))"

fun joinBuf :: "string list \<Rightarrow> string \<Rightarrow> string" where
  "joinBuf [] buf = buf"
| "joinBuf (e # es) buf =
     joinBuf es
       (if length buf > 0 \<or> e \<noteq> [] then (if length buf > 0 then buf @ ''/'' else buf) @ e
        else buf)"

definition path_Join :: "string list \<Rightarrow> string" where
  "path_Join elem =
     (if sum_list (map length elem) = 0 then [] else path_Clean (joinBuf elem []))"

definition filepath_IsAbs :: "string \<Rightarrow> bool" where
  "filepath_IsAbs path = strings_HasPrefix path ''/''"

subsection \<open>The host\<close>

text \<open>
  \<open>filepath.Clean\<close> and \<open>filepath.Rel\<close> are written once in the library and rest on
  what the host defines: the separator, which bytes separate, where a volume name ends,
  and when two names are the same. \<open>unix\<close> has the values of a Unix host. \<open>windows\<close>
  has those of a Windows host for paths with a drive letter or no volume name: UNC and
  device paths, which start with two separators, read here as having no volume name, and
  \<open>strings.EqualFold\<close> folds the letters a to z only.
\<close>

record host =
  Separator :: char
  IsPathSeparator :: "char \<Rightarrow> bool"
  volumeNameLen :: "string \<Rightarrow> nat"
  sameWord :: "string \<Rightarrow> string \<Rightarrow> bool"
  GOOSWindows :: bool

definition backslash :: char where
  "backslash = CHR 0x5C"

definition isLetter :: "char \<Rightarrow> bool" where
  "isLetter c = (c \<in> set ''abcdefghijklmnopqrstuvwxyzABCDEFGHIJKLMNOPQRSTUVWXYZ'')"

definition toUpper :: "char \<Rightarrow> char" where
  "toUpper c =
     (case map_of (zip ''abcdefghijklmnopqrstuvwxyz'' ''ABCDEFGHIJKLMNOPQRSTUVWXYZ'') c of
        Some u \<Rightarrow> u
      | None \<Rightarrow> c)"

definition unix :: host where
  "unix = \<lparr>Separator = CHR ''/'', IsPathSeparator = (\<lambda>c. c = CHR ''/''),
           volumeNameLen = (\<lambda>path. 0), sameWord = (\<lambda>a b. a = b), GOOSWindows = False\<rparr>"

definition windows :: host where
  "windows =
     \<lparr>Separator = backslash, IsPathSeparator = (\<lambda>c. c = backslash \<or> c = CHR ''/''),
      volumeNameLen = (\<lambda>path. if length path < 2 then 0
                               else if byte path 1 = Some (CHR '':'') \<and> isLetter (path ! 0) then 2
                               else 0),
      sameWord = (\<lambda>a b. map toUpper a = map toUpper b), GOOSWindows = True\<rparr>"

definition sepAt :: "host \<Rightarrow> string \<Rightarrow> nat \<Rightarrow> bool" where
  "sepAt h s i = (case byte s i of Some c \<Rightarrow> IsPathSeparator h c | None \<Rightarrow> False)"

definition FromSlash :: "host \<Rightarrow> string \<Rightarrow> string" where
  "FromSlash h path =
     (if Separator h = CHR ''/'' then path
      else map (\<lambda>c. if c = CHR ''/'' then Separator h else c) path)"

definition VolumeName :: "host \<Rightarrow> string \<Rightarrow> string" where
  "VolumeName h path = FromSlash h (take (volumeNameLen h path) path)"

subsection \<open>filepath.Clean\<close>

text \<open>
  The loop of \<open>filepath.Clean\<close> is the loop of \<open>path.Clean\<close> with the host's
  separators. \<open>volLen\<close> is the length of the volume name, which is not part of the
  buffer, and \<open>r0\<close> says that nothing of the path has been read yet (\<open>r == 0\<close>): on
  Windows an element with a colon that would come to stand first in a relative path is
  prefixed with a dot element.
\<close>

function filepathBacktrack :: "host \<Rightarrow> string \<Rightarrow> nat \<Rightarrow> nat \<Rightarrow> nat" where
  "filepathBacktrack h out dotdot w =
     (if w > dotdot \<and> \<not> sepAt h out w then filepathBacktrack h out dotdot (w - 1) else w)"
  by pat_completeness auto
termination
  by (relation "measure (\<lambda>(h, out, dotdot, w). w)") auto

declare filepathBacktrack.simps [simp del]

function filepathCleanLoop ::
  "host \<Rightarrow> nat \<Rightarrow> bool \<Rightarrow> bool \<Rightarrow> string \<Rightarrow> string \<Rightarrow> nat \<Rightarrow> string" where
  "filepathCleanLoop h volLen rooted r0 [] out dotdot = out"
| "filepathCleanLoop h volLen rooted r0 (c # cs) out dotdot =
     (if IsPathSeparator h c then filepathCleanLoop h volLen rooted False cs out dotdot
      else if c = CHR ''.'' \<and> (cs = [] \<or> sepAt h cs 0) then
        filepathCleanLoop h volLen rooted False cs out dotdot
      else if c = CHR ''.'' \<and> byte cs 0 = Some (CHR ''.'') \<and> (length cs = 1 \<or> sepAt h cs 1) then
        (if length out > dotdot then
           filepathCleanLoop h volLen rooted False (tl cs)
             (take (filepathBacktrack h out dotdot (length out - 1)) out) dotdot
         else if \<not> rooted then
           filepathCleanLoop h volLen rooted False (tl cs)
             ((if length out > 0 then out @ [Separator h] else out) @ ''..'')
             (length ((if length out > 0 then out @ [Separator h] else out) @ ''..''))
         else filepathCleanLoop h volLen rooted False (tl cs) out dotdot)
      else
        filepathCleanLoop h volLen rooted False (dropWhile (\<lambda>x. \<not> IsPathSeparator h x) (c # cs))
          ((if rooted \<and> length out \<noteq> 1 \<or> \<not> rooted \<and> length out \<noteq> 0 then out @ [Separator h]
            else if GOOSWindows h \<and> length out = 0 \<and> volLen = 0 \<and> \<not> r0
                    \<and> CHR '':'' \<in> set (takeWhile (\<lambda>x. \<not> IsPathSeparator h x) (c # cs))
            then [CHR ''.'', Separator h]
            else out)
             @ takeWhile (\<lambda>x. \<not> IsPathSeparator h x) (c # cs))
          dotdot)"
  by pat_completeness auto
termination
  by (relation "measure (\<lambda>(h, volLen, rooted, r0, rest, out, dotdot). length rest)")
    (auto simp: le_imp_less_Suc length_dropWhile_le)

definition filepath_Clean :: "host \<Rightarrow> string \<Rightarrow> string" where
  "filepath_Clean h originalPath =
     (let volLen = volumeNameLen h originalPath;
          path = drop volLen originalPath
      in if path = [] then
           (if volLen > 1 \<and> sepAt h originalPath 0 \<and> sepAt h originalPath 1
            then FromSlash h originalPath
            else originalPath @ ''.'')
         else
           (let rooted = sepAt h path 0;
                out = (if rooted then filepathCleanLoop h volLen rooted False (tl path) [Separator h] 1
                       else filepathCleanLoop h volLen rooted True path [] 0)
            in FromSlash h (take volLen originalPath @ (if length out = 0 then ''.'' else out))))"

text \<open>\<open>filepath.Join\<close> of a Unix host.\<close>

fun filepath_Join :: "string list \<Rightarrow> string" where
  "filepath_Join [] = []"
| "filepath_Join (e # es) =
     (if e \<noteq> [] then filepath_Clean unix (strings_Join (e # es) ''/'') else filepath_Join es)"

subsection \<open>filepath.Rel\<close>

text \<open>
  \<open>filepath.Rel\<close> walks both cleaned paths element by element up to the first difference.
  The model works on the lists of elements; the library works on indices into the strings.
  The result is written with the separator of the host.
\<close>

fun splitOn :: "char \<Rightarrow> string \<Rightarrow> string list" where
  "splitOn sep [] = [[]]"
| "splitOn sep (c # cs) =
     (if c = sep then [] # splitOn sep cs
      else (case splitOn sep cs of [] \<Rightarrow> [[c]] | e # es \<Rightarrow> (c # e) # es))"

definition elements :: "host \<Rightarrow> string \<Rightarrow> string list" where
  "elements h path = filter (\<lambda>e. e \<noteq> []) (splitOn (Separator h) path)"

fun dropCommon :: "host \<Rightarrow> string list \<Rightarrow> string list \<Rightarrow> string list \<times> string list" where
  "dropCommon h (b # bs) (t # ts) =
     (if sameWord h t b then dropCommon h bs ts else (b # bs, t # ts))"
| "dropCommon h bs ts = (bs, ts)"

definition relError :: "string \<Rightarrow> string \<Rightarrow> error" where
  "relError basepath targpath =
     External (''Rel: can't make '' @ targpath @ '' relative to '' @ basepath)"

definition filepath_Rel :: "host \<Rightarrow> string \<Rightarrow> string \<Rightarrow> error + string" where
  "filepath_Rel h basepath targpath =
     (let baseVol = VolumeName h basepath; targVol = VolumeName h targpath;
          base = filepath_Clean h basepath; targ = filepath_Clean h targpath
      in if sameWord h targ base then Inr ''.''
         else
           (let base = drop (length baseVol) base;
                targ = drop (length targVol) targ;
                base = (if base = ''.'' then []
                        else if base = [] \<and> volumeNameLen h baseVol > 2 then [Separator h]
                        else base);
                baseSlashed = (length base > 0 \<and> byte base 0 = Some (Separator h));
                targSlashed = (length targ > 0 \<and> byte targ 0 = Some (Separator h))
            in if baseSlashed \<noteq> targSlashed \<or> \<not> sameWord h baseVol targVol
               then Inl (relError basepath targpath)
               else
                 (case dropCommon h (elements h base) (elements h targ) of
                    (b, t) \<Rightarrow>
                      if take 1 b = [''..''] then Inl (relError basepath targpath)
                      else if b \<noteq> [] then
                        Inr (strings_Join (replicate (length b) ''..'' @ t) [Separator h])
                      else Inr (strings_Join t [Separator h]))))"

section \<open>maybeFileEvent\<close>

text \<open>
  \<open>h\<close> is the host the code runs on. \<open>isChild\<close> is \<open>watch.IsChild\<close> and \<open>ignore\<close>
  is \<open>ignore.Matches\<close>; both live outside this file and are parameters. The result pairs
  what is logged with the event, \<open>None\<close> for Go's nil.
\<close>

definition maybeFileEvent ::
  "host \<Rightarrow> (string \<Rightarrow> string \<Rightarrow> bool) \<Rightarrow> Trigger \<Rightarrow> string \<Rightarrow> (string \<Rightarrow> error + bool) \<Rightarrow>
     'y effect list \<times> fileEvent option" where
  "maybeFileEvent h isChild trigger hostPath ignore =
     (if \<not> isChild (Path trigger) hostPath then ([], None)
      else
        (case ignore hostPath of
           Inl err \<Rightarrow> ([Logf Warn ''error ignore matching %q: %v'' [S hostPath, E err]], None)
         | Inr isIgnored \<Rightarrow>
             if isIgnored then ([Logf Debug ''%s is matching ignore pattern'' [S hostPath]], None)
             else if Target trigger \<noteq> [] then
               (case filepath_Rel h (Path trigger) hostPath of
                  Inl err \<Rightarrow>
                    ([Logf Warn ''error making %s relative to %s: %v''
                        [S hostPath, S (Path trigger), E err]], None)
                | Inr rel \<Rightarrow>
                    ([], Some \<lparr>mapping = \<lparr>HostPath = hostPath,
                                           ContainerPath = path_Join [Target trigger, rel]\<rparr>,
                               action = Action trigger\<rparr>))
             else
               ([], Some \<lparr>mapping = \<lparr>HostPath = hostPath, ContainerPath = []\<rparr>,
                          action = Action trigger\<rparr>)))"

section \<open>loadDevelopmentConfig\<close>

record DevelopmentConfig =
  Watch :: "Trigger list"

record 'y Project =
  WorkingDir :: string
  Services :: "'y ServiceConfig list"

text \<open>
  What \<open>Watch\<close> and \<open>loadDevelopmentConfig\<close> ask of the world: \<open>decode\<close> is
  \<open>mapstructure.Decode\<close> into a \<open>DevelopmentConfig\<close>, \<open>evalSymlinks\<close> is
  \<open>filepath.EvalSymlinks\<close>, \<open>forServices\<close> is \<open>project.ForServices\<close> (it restricts the
  project in place), and the rest are the constructors of \<open>pkg/watch\<close> and
  \<open>watcher.Start\<close>, of which only success or failure matters here.
\<close>

record 'y world =
  decode :: "'y \<Rightarrow> error + DevelopmentConfig"
  evalSymlinks :: "string \<Rightarrow> error + string"
  forServices :: "'y Project \<Rightarrow> string list \<Rightarrow> error + 'y Project"
  loadDockerIgnore :: "string \<Rightarrow> error option"
  newDockerPatternMatcher :: "string \<Rightarrow> string list \<Rightarrow> error option"
  newWatcher :: "string list \<Rightarrow> error option"
  watcherStart :: "string list \<Rightarrow> error option"

text \<open>The loop over \<open>config.Watch\<close>; the triggers are returned as rewritten.\<close>

fun resolveTriggers ::
  "'y world \<Rightarrow> 'y ServiceConfig \<Rightarrow> string \<Rightarrow> Trigger list \<Rightarrow> error + Trigger list" where
  "resolveTriggers w service baseDir [] = Inr []"
| "resolveTriggers w service baseDir (trigger # triggers) =
     (let trigger = (if \<not> filepath_IsAbs (Path trigger)
                     then trigger\<lparr>Path := filepath_Join [baseDir, Path trigger]\<rparr> else trigger);
          trigger = (case evalSymlinks w (Path trigger) of
                       Inr p \<Rightarrow> trigger\<lparr>Path := p\<rparr>
                     | Inl err \<Rightarrow> trigger);
          trigger = trigger\<lparr>Path := filepath_Clean unix (Path trigger)\<rparr>
      in if Path trigger = [] then Inl MustDefinePath
         else if Action trigger = WatchActionRebuild \<and> SBuild service = None then
           Inl (RebuildWithoutBuild (Name service))
         else
           (case resolveTriggers w service baseDir triggers of
              Inl err \<Rightarrow> Inl err
            | Inr rest \<Rightarrow> Inr (trigger # rest)))"

definition loadDevelopmentConfig ::
  "'y world \<Rightarrow> 'y ServiceConfig \<Rightarrow> 'y Project \<Rightarrow> error + DevelopmentConfig option" where
  "loadDevelopmentConfig w service project =
     (case XDevelop service of
        None \<Rightarrow> Inr None
      | Some y \<Rightarrow>
          (case decode w y of
             Inl err \<Rightarrow> Inl err
           | Inr config \<Rightarrow>
               (case evalSymlinks w (WorkingDir project) of
                  Inl err \<Rightarrow> Inl (ResolvingSymlink (WorkingDir project) err)
                | Inr baseDir \<Rightarrow>
                    (case resolveTriggers w service baseDir (Watch config) of
                       Inl err \<Rightarrow> Inl err
                     | Inr triggers \<Rightarrow> Inr (Some (config\<lparr>Watch := triggers\<rparr>))))))"

section \<open>Watch\<close>

definition PullPolicyBuild :: string where
  "PullPolicyBuild = ''build''"

text \<open>
  How the setup phase of \<open>Watch\<close> ends: with an error, with a nil dereference, or with
  every watcher started and the call blocked in \<open>eg.Wait()\<close>, whose result is that of
  the goroutines and lies outside this model.
\<close>

datatype 'y outcome = Failed error | Panic | Waiting "'y Project"

text \<open>
  The body of the loop \<open>for i := range project.Services\<close>, for one service.
  \<open>watching\<close> is the flag of the same name and \<open>fx\<close> is what has happened so
  far. The body either makes \<open>Watch\<close> return (\<open>Inl\<close>) or goes on to the next index
  with the service as it now stands in \<open>project.Services[i]\<close> and the flag
  (\<open>Inr\<close>). \<open>loadDevelopmentConfig\<close> reads only the working directory of the project,
  which the loop never changes. Where the service has no build section the dereference
  \<open>service.Build.Context\<close> would panic. The pull policy is written into the project
  before the matchers and the watcher are built; the model shows the write only where the
  body goes on, since an error makes \<open>Watch\<close> return without the project.
\<close>

definition watchService ::
  "'y world \<Rightarrow> string list \<Rightarrow> 'y Project \<Rightarrow> 'y ServiceConfig \<Rightarrow> bool \<Rightarrow> 'y effect list \<Rightarrow>
     'y effect list \<times> ('y outcome + 'y ServiceConfig \<times> bool)" where
  "watchService w services project service watching fx =
     (case loadDevelopmentConfig w service project of
        Inl err \<Rightarrow> (fx, Inl (Failed err))
      | Inr None \<Rightarrow> (fx, Inr (service, watching))
      | Inr (Some config) \<Rightarrow>
          if length (Watch config) > 0 \<and> SBuild service = None then
            (fx, Inl (Failed (NoBuildContext (Name service))))
          else if length services > 0 \<and> SBuild service = None then
            (fx, Inl (Failed (NoBuildContext (Name service))))
          else if length services = 0 \<and> SBuild service = None then
            (fx, Inr (service, watching))
          else
            (case SBuild service of
               None \<Rightarrow> (fx, Inl Panic)
             | Some build \<Rightarrow>
                 (case loadDockerIgnore w (Context build) of
                    Some err \<Rightarrow> (fx, Inl (Failed err))
                  | None \<Rightarrow>
                      (case newDockerPatternMatcher w ''/'' [''.git/''] of
                         Some err \<Rightarrow> (fx, Inl (Failed err))
                       | None \<Rightarrow>
                           (case watchPaths (Watch config) (Volumes service) fx [] of
                              (fx, paths) \<Rightarrow>
                                (case newWatcher w paths of
                                   Some err \<Rightarrow> (fx @ [NewWatcher paths], Inl (Failed err))
                                 | None \<Rightarrow>
                                     (case watcherStart w paths of
                                        Some err \<Rightarrow>
                                          (fx @ [NewWatcher paths,
                                                 Fprintf Stdinfo ''watching %s\<newline>'' [L paths],
                                                 WatcherStart paths], Inl (Failed err))
                                      | None \<Rightarrow>
                                          (fx @ [NewWatcher paths,
                                                 Fprintf Stdinfo ''watching %s\<newline>'' [L paths],
                                                 WatcherStart paths,
                                                 Go (Name service) (Watch config)],
                                           Inr (service\<lparr>PullPolicy := PullPolicyBuild\<rparr>,
                                                True)))))))))"

text \<open>
  The loop itself and what follows it. \<open>visited\<close> holds the services before the
  current index as the loop has left them.
\<close>

fun watchServices ::
  "'y world \<Rightarrow> string list \<Rightarrow> 'y Project \<Rightarrow> 'y ServiceConfig list \<Rightarrow> 'y ServiceConfig list \<Rightarrow>
     bool \<Rightarrow> 'y effect list \<Rightarrow> 'y effect list \<times> 'y outcome" where
  "watchServices w services project visited [] watching fx =
     (if \<not> watching then (fx, Failed NotConfiguredForWatch)
      else (fx, Waiting (project\<lparr>Services := visited\<rparr>)))"
| "watchServices w services project visited (service # rest) watching fx =
     (case watchService w services project service watching fx of
        (fx, Inl result) \<Rightarrow> (fx, result)
      | (fx, Inr (service, watching)) \<Rightarrow>
          watchServices w services project (visited @ [service]) rest watching fx)"

definition composeService_Watch ::
  "'y world \<Rightarrow> 'y Project \<Rightarrow> string list \<Rightarrow> 'y effect list \<times> 'y outcome" where
  "composeService_Watch w project services =
     (case forServices w project services of
        Inl err \<Rightarrow> ([], Failed err)
      | Inr project \<Rightarrow> watchServices w services project [] (Services project) False [])"

section \<open>batchDebounceEvents\<close>

text \<open>
  A \<open>time.Time\<close> is an instant in nanoseconds; \<open>Before\<close> is \<open><\<close>.
\<close>

type_synonym time = int

definition quietPeriod :: time where
  "quietPeriod = 500000000"

text \<open>
  The map \<open>seen\<close> is a list of pairs with distinct keys. \<open>seen[e] = now\<close> is
  \<open>AList.update\<close>, which overwrites the value of a key that is present and appends a
  new key at the end. Go's map has no order of its own: the order of this list is not
  visible to the code, and records in which order the pending events were first received.
\<close>

type_synonym seen = "(fileEvent \<times> time) list"

text \<open>\<open>seen[x]\<close>: a key that is absent reads as the zero time.\<close>

definition stamp :: "seen \<Rightarrow> fileEvent \<Rightarrow> time" where
  "stamp seen x = (case map_of seen x of Some t \<Rightarrow> t | None \<Rightarrow> 0)"

text \<open>\<open>ks\<close> is an enumeration of the keys of the map, each key once.\<close>

definition rangeOrder :: "seen \<Rightarrow> fileEvent list \<Rightarrow> bool" where
  "rangeOrder seen ks = (mset ks = mset (map fst seen))"

text \<open>
  \<open>flushEvents\<close> returns what it sends on \<open>out\<close> (nothing or one batch) and the new
  map. \<open>sort.SliceStable\<close> with the comparison \<open>seen[x].Before(seen[y])\<close> is the stable
  sort by \<open>stamp\<close>. The send itself is a step of the loop below.
\<close>

definition flushEvents :: "seen \<Rightarrow> fileEvent list \<Rightarrow> fileEvent list list \<times> seen" where
  "flushEvents seen ks =
     (if length seen = 0 then ([], seen)
      else ([sort_key (stamp seen) ks], []))"

subsection \<open>The ticker\<close>

text \<open>
  Modelled from the spec: the ticker belongs to the injected clock and is not part of
  watch.go. Section 4.4 describes a single repeating timer with a fixed period that a
  reset makes fire one period from then. The spec does not say what becomes of a firing
  that has not been received when the timer is reset. The clock in use wraps Go's
  \<open>time.Ticker\<close>: a firing is put into a channel that holds one tick and is dropped when
  the channel is full, and \<open>Reset\<close> leaves a tick that is in the channel where it is.

  The state of the ticker is the instant \<open>due\<close> of its next firing and whether a tick is
  in its channel. \<open>elapse\<close> brings the ticker to the instant \<open>at\<close>.
\<close>

type_synonym ticker = "time \<times> bool"

definition elapse :: "time \<Rightarrow> ticker \<Rightarrow> time \<Rightarrow> ticker" where
  "elapse delay t at =
     (case t of
        (due, buffered) \<Rightarrow>
          if due \<le> at then (due + ((at - due) div delay + 1) * delay, True)
          else (due, buffered))"

subsection \<open>The goroutine\<close>

text \<open>
  A step of a run is a case that the \<open>select\<close> takes, or the consumer receiving the
  batch that the goroutine is sending at \<open>out <- events\<close>. Each step comes with the
  instant at which it happens, on the clock of the ticker; the instants of a run do not
  decrease. Receiving an event comes with the value that \<open>time.Now()\<close> returns for it. A
  case that flushes comes with \<open>ks\<close>, the order in which \<open>for e := range seen\<close> yields
  the keys in that flush: Go leaves this order unspecified, so the run supplies it.
\<close>

datatype wakeup =
    CtxDone
  | TickerChan "fileEvent list"
  | Input fileEvent time
  | InputClosed "fileEvent list"
  | OutReceived

text \<open>
  Where the goroutine stands: waiting in \<open>select\<close> with the map; blocked in the send of
  a batch, with the map it goes on with after the send (\<open>None\<close> where it returns after
  the send, the input channel being closed); or returned, when the deferred
  \<open>close(out)\<close> has run.
\<close>

datatype mode =
    InSelect seen
  | InSend "fileEvent list" "seen option"
  | Returned

text \<open>
  The loop. The result is \<open>None\<close> when the list is not a run of the goroutine: a tick
  is taken that is not in the channel, the keys are not those of the map, a case is taken
  while the goroutine is blocked in a send, or a batch is received that is not being
  sent. Otherwise it is the batches that the consumer has received and where the
  goroutine stands. \<open>t.Reset(delay)\<close> sets the next firing and does not touch the
  channel.
\<close>

fun debounceLoop ::
  "time \<Rightarrow> mode \<Rightarrow> ticker \<Rightarrow> fileEvent list list \<Rightarrow> (time \<times> wakeup) list \<Rightarrow>
     (fileEvent list list \<times> mode) option" where
  "debounceLoop delay m t out [] = Some (out, m)"
| "debounceLoop delay Returned t out (step # rest) = Some (out, Returned)"
| "debounceLoop delay (InSend events next) t out ((at, OutReceived) # rest) =
     debounceLoop delay (case next of Some seen \<Rightarrow> InSelect seen | None \<Rightarrow> Returned)
       (elapse delay t at) (out @ [events]) rest"
| "debounceLoop delay (InSend events next) t out ((at, other) # rest) = None"
| "debounceLoop delay (InSelect seen) t out ((at, CtxDone) # rest) = Some (out, Returned)"
| "debounceLoop delay (InSelect seen) t out ((at, TickerChan ks) # rest) =
     (if snd (elapse delay t at) \<and> rangeOrder seen ks then
        (case fst (flushEvents seen ks) of
           [] \<Rightarrow> debounceLoop delay (InSelect seen) (fst (elapse delay t at), False) out rest
         | events # others \<Rightarrow>
             debounceLoop delay (InSend events (Some (snd (flushEvents seen ks))))
               (fst (elapse delay t at), False) out rest)
      else None)"
| "debounceLoop delay (InSelect seen) t out ((at, Input e now) # rest) =
     debounceLoop delay (InSelect (AList.update e now seen))
       (at + delay, snd (elapse delay t at)) out rest"
| "debounceLoop delay (InSelect seen) t out ((at, InputClosed ks) # rest) =
     (if rangeOrder seen ks then
        (case fst (flushEvents seen ks) of
           [] \<Rightarrow> Some (out, Returned)
         | events # others \<Rightarrow> debounceLoop delay (InSend events None) (elapse delay t at) out rest)
      else None)"
| "debounceLoop delay (InSelect seen) t out ((at, OutReceived) # rest) = None"

text \<open>
  The batcher created at the instant \<open>created\<close>: the map is empty, the ticker fires
  first one \<open>delay\<close> later and its channel is empty. \<open>NewTicker\<close> panics when the
  period is not positive.
\<close>

definition batchDebounceEvents ::
  "time \<Rightarrow> time \<Rightarrow> (time \<times> wakeup) list \<Rightarrow> (fileEvent list list \<times> mode) option" where
  "batchDebounceEvents delay created run =
     (if delay \<le> 0 then None
      else debounceLoop delay (InSelect []) (created + delay, False) [] run)"


text \<open>
  The premise of the claim about a burst: the run receives no event but \<open>e\<close>, each
  reception comes less than \<open>delay\<close> after the one before (\<open>previous\<close>, if any), and
  the run is neither cancelled nor is its input closed.
\<close>

fun burst :: "time \<Rightarrow> fileEvent \<Rightarrow> time option \<Rightarrow> (time \<times> wakeup) list \<Rightarrow> bool" where
  "burst delay e previous [] = True"
| "burst delay e previous ((at, Input e' now) # rest) =
     (e' = e \<and> (case previous of None \<Rightarrow> True | Some p \<Rightarrow> at - p < delay)
      \<and> burst delay e (Some at) rest)"
| "burst delay e previous ((at, TickerChan ks) # rest) = burst delay e previous rest"
| "burst delay e previous ((at, OutReceived) # rest) = burst delay e previous rest"
| "burst delay e previous ((at, other) # rest) = False"

text \<open>
  Modelled from the spec: \<open>watch.IsChild\<close> is defined in pkg/watch, outside this file.
  Section 4.3 asks that the host path be the trigger's path or a descendant of it, compared
  by path elements and not by characters. Used for the examples only.
\<close>

definition IsChild :: "host \<Rightarrow> string \<Rightarrow> string \<Rightarrow> bool" where
  "IsChild h dir file =
     (dir \<noteq> []
      \<and> sepAt h (drop (volumeNameLen h dir) dir) 0 = sepAt h (drop (volumeNameLen h file) file) 0
      \<and> prefix (elements h (filepath_Clean h dir)) (elements h (filepath_Clean h file)))"

section \<open>Example inputs\<close>

definition syncEvent :: fileEvent where
  "syncEvent = \<lparr>mapping = \<lparr>HostPath = ''/src/main.go'', ContainerPath = ''/app/main.go''\<rparr>,
                 action = ''sync''\<rparr>"

definition rebuildEvent :: fileEvent where
  "rebuildEvent = \<lparr>mapping = \<lparr>HostPath = ''/src/go.mod'', ContainerPath = []\<rparr>,
                    action = ''rebuild''\<rparr>"

definition webService :: "unit ServiceConfig" where
  "webService = \<lparr>Name = ''web'', SBuild = Some \<lparr>Context = ''/src''\<rparr>, XDevelop = None,
                  Volumes = [], PullPolicy = []\<rparr>"

text \<open>Collaborators that all fail: the build does not start and the sync is refused.\<close>

definition failing :: "unit collaborators" where
  "failing = \<lparr>up = (\<lambda>opts. Some (External ''up'')),
              getService = (\<lambda>name. Inr webService),
              sync = (\<lambda>service pathMappings. Some (External ''sync'')),
              debugEnabled = False\<rparr>"

definition srcTrigger :: Trigger where
  "srcTrigger = \<lparr>Path = ''/src'', Action = ''sync'', Target = ''/app'', Ignore = []\<rparr>"

text \<open>
  A world where nothing fails: the extension value is the decoded configuration, no path
  is a symlink, and every matcher and watcher can be built and started. With no services
  selected, \<open>ForServices\<close> leaves the project as it is.
\<close>

definition calm :: "DevelopmentConfig world" where
  "calm = \<lparr>decode = (\<lambda>y. Inr y), evalSymlinks = (\<lambda>p. Inr p),
           forServices = (\<lambda>project names. Inr project),
           loadDockerIgnore = (\<lambda>context. None),
           newDockerPatternMatcher = (\<lambda>root patterns. None),
           newWatcher = (\<lambda>paths. None), watcherStart = (\<lambda>paths. None)\<rparr>"

text \<open>A service whose only watch rule has the empty path.\<close>

definition emptyPathService :: "DevelopmentConfig ServiceConfig" where
  "emptyPathService =
     \<lparr>Name = ''web'', SBuild = Some \<lparr>Context = ''/proj''\<rparr>,
      XDevelop = Some \<lparr>Watch = [\<lparr>Path = [], Action = ''sync'', Target = ''/app'', Ignore = []\<rparr>]\<rparr>,
      Volumes = [], PullPolicy = []\<rparr>"

text \<open>A service that can be watched, and one with a rebuild rule and no build section.\<close>

definition goodService :: "DevelopmentConfig ServiceConfig" where
  "goodService =
     \<lparr>Name = ''web'', SBuild = Some \<lparr>Context = ''/src''\<rparr>,
      XDevelop = Some \<lparr>Watch = [srcTrigger]\<rparr>, Volumes = [], PullPolicy = []\<rparr>"

definition badService :: "DevelopmentConfig ServiceConfig" where
  "badService =
     \<lparr>Name = ''api'', SBuild = None,
      XDevelop = Some \<lparr>Watch = [\<lparr>Path = ''/api'', Action = ''rebuild'', Target = [], Ignore = []\<rparr>]\<rparr>,
      Volumes = [], PullPolicy = []\<rparr>"

text \<open>
  A trigger and a change on a Windows host: path \<open>C:\src\<close>, target \<open>/app\<close>, change
  at \<open>C:\src\pkg\file.go\<close>.
\<close>

definition windowsSrc :: string where
  "windowsSrc = ''C:'' @ [backslash] @ ''src''"

definition windowsFile :: string where
  "windowsFile = ''C:'' @ [backslash] @ ''src'' @ [backslash] @ ''pkg'' @ [backslash] @ ''file.go''"

definition windowsTrigger :: Trigger where
  "windowsTrigger = \<lparr>Path = windowsSrc, Action = ''sync'', Target = ''/app'', Ignore = []\<rparr>"

section \<open>The batch dispatcher\<close>

lemma loop_no_rebuild:
  "\<forall>e\<in>set batch. action e \<noteq> WatchActionRebuild \<Longrightarrow>
   handleWatchBatchLoop c n batch pms = handleWatchBatchLoop c n [] (pms @ map mapping batch)"
  by (induction batch arbitrary: pms) (auto split: sum.splits)

lemma loop_first_rebuild:
  "\<forall>e\<in>set pre. action e \<noteq> WatchActionRebuild \<Longrightarrow> action r = WatchActionRebuild \<Longrightarrow>
   handleWatchBatchLoop c n (pre @ r # post) pms = handleWatchBatchLoop c n [r] pms'"
  by (induction pre arbitrary: pms) auto

lemma split_first_rebuild:
  "\<exists>e\<in>set batch. action e = WatchActionRebuild \<Longrightarrow>
   \<exists>pre r post. batch = pre @ r # post \<and> (\<forall>e\<in>set pre. action e \<noteq> WatchActionRebuild)
      \<and> action r = WatchActionRebuild \<and> find (\<lambda>e. action e = WatchActionRebuild) batch = Some r"
proof (induction batch)
  case Nil
  then show ?case by simp
next
  case (Cons a batch)
  show ?case
  proof (cases "action a = WatchActionRebuild")
    case True
    then have "a # batch = [] @ a # batch \<and> (\<forall>e\<in>set []. action e \<noteq> WatchActionRebuild)
      \<and> action a = WatchActionRebuild \<and> find (\<lambda>e. action e = WatchActionRebuild) (a # batch) = Some a"
      by simp
    then show ?thesis by blast
  next
    case False
    with Cons obtain pre r post where "batch = pre @ r # post"
      "\<forall>e\<in>set pre. action e \<noteq> WatchActionRebuild"
      "action r = WatchActionRebuild" "find (\<lambda>e. action e = WatchActionRebuild) batch = Some r"
      by auto
    with False have "a # batch = (a # pre) @ r # post
      \<and> (\<forall>e\<in>set (a # pre). action e \<noteq> WatchActionRebuild)
      \<and> action r = WatchActionRebuild \<and> find (\<lambda>e. action e = WatchActionRebuild) (a # batch) = Some r"
      by simp
    then show ?thesis by blast
  qed
qed

text \<open>
  C3. When the batch holds a rebuild event and \<open>r\<close> is the first one, the dispatch does
  exactly this and nothing else: it announces the host path of \<open>r\<close>, calls \<open>Up\<close> once,
  with options whose build, create and start lists of services hold this service and no
  other, writes to stderr if \<open>Up\<close> failed, and returns nil. The sync collaborator is not
  called, and no event after \<open>r\<close> has any influence.
\<close>

theorem rebuild_short_circuit:
  assumes "find (\<lambda>e. action e = WatchActionRebuild) batch = Some r"
  shows "handleWatchBatch c serviceName batch =
           ([Fprintf Stdinfo ''Rebuilding %s after changes were detected:%s\<newline>''
               [S serviceName, S (''\<newline>  - '' @ HostPath (mapping r))],
             Up \<lparr>Create = \<lparr>Build = \<lparr>Pull = False, Push = False,
                                      BuildServices = [serviceName]\<rparr>,
                            CreateServices = [serviceName], Inherit = True\<rparr>,
                 Start = \<lparr>StartServices = [serviceName]\<rparr>\<rparr>]
            @ (if up c \<lparr>Create = \<lparr>Build = \<lparr>Pull = False, Push = False,
                                            BuildServices = [serviceName]\<rparr>,
                                  CreateServices = [serviceName], Inherit = True\<rparr>,
                       Start = \<lparr>StartServices = [serviceName]\<rparr>\<rparr> = None then []
               else [Fprintf Stderr ''Application failed to start after update\<newline>'' []]),
            None)
         \<and> length (filter isUp (fst (handleWatchBatch c serviceName batch))) = 1
         \<and> filter isSync (fst (handleWatchBatch c serviceName batch)) = []"
proof -
  from assms have "\<exists>e\<in>set batch. action e = WatchActionRebuild"
    by (auto simp: find_Some_iff)
  from split_first_rebuild[OF this] assms obtain pre post where
    b: "batch = pre @ r # post" and p: "\<forall>e\<in>set pre. action e \<noteq> WatchActionRebuild"
    and r: "action r = WatchActionRebuild" by auto
  have "handleWatchBatch c serviceName batch = handleWatchBatchLoop c serviceName [r] []"
    unfolding handleWatchBatch_def b by (rule loop_first_rebuild[OF p r])
  then have g: "handleWatchBatch c serviceName batch =
           ([Fprintf Stdinfo ''Rebuilding %s after changes were detected:%s\<newline>''
               [S serviceName, S (''\<newline>  - '' @ HostPath (mapping r))],
             Up \<lparr>Create = \<lparr>Build = \<lparr>Pull = False, Push = False,
                                      BuildServices = [serviceName]\<rparr>,
                            CreateServices = [serviceName], Inherit = True\<rparr>,
                 Start = \<lparr>StartServices = [serviceName]\<rparr>\<rparr>]
            @ (if up c \<lparr>Create = \<lparr>Build = \<lparr>Pull = False, Push = False,
                                            BuildServices = [serviceName]\<rparr>,
                                  CreateServices = [serviceName], Inherit = True\<rparr>,
                       Start = \<lparr>StartServices = [serviceName]\<rparr>\<rparr> = None then []
               else [Fprintf Stderr ''Application failed to start after update\<newline>'' []]),
            None)"
    using r by (simp add: rebuildOptions_def split: option.splits)
  show ?thesis unfolding g by simp
qed

theorem rebuild_short_circuit_witness:
  "find (\<lambda>e. action e = WatchActionRebuild) [syncEvent, rebuildEvent, syncEvent] = Some rebuildEvent
   \<and> handleWatchBatch failing ''web'' [syncEvent, rebuildEvent, syncEvent] =
       ([Fprintf Stdinfo ''Rebuilding %s after changes were detected:%s\<newline>''
           [S ''web'', S ''\<newline>  - /src/go.mod''],
         Up \<lparr>Create = \<lparr>Build = \<lparr>Pull = False, Push = False, BuildServices = [''web'']\<rparr>,
                        CreateServices = [''web''], Inherit = True\<rparr>,
             Start = \<lparr>StartServices = [''web'']\<rparr>\<rparr>,
         Fprintf Stderr ''Application failed to start after update\<newline>'' []],
        None)"
  using rebuild_short_circuit [of "[syncEvent, rebuildEvent, syncEvent]" rebuildEvent failing "''web''"]
  by (simp add: syncEvent_def rebuildEvent_def failing_def WatchActionRebuild_def)

text \<open>
  C8. The dispatch returns an error exactly when the batch holds no rebuild event and
  either the service lookup fails or the sync collaborator does. When the batch holds a
  rebuild event and \<open>Up\<close> fails, the failure is written to stderr and the dispatch
  returns nil.
\<close>

theorem dispatch_error_iff:
  "(snd (handleWatchBatch c serviceName batch) \<noteq> None) =
     ((\<forall>e\<in>set batch. action e \<noteq> WatchActionRebuild) \<and>
      (case getService c serviceName of
         Inl err \<Rightarrow> True
       | Inr service \<Rightarrow> sync c service (map mapping batch) \<noteq> None))
   \<and> ((\<exists>e\<in>set batch. action e = WatchActionRebuild) \<and> up c (rebuildOptions serviceName) \<noteq> None \<longrightarrow>
        snd (handleWatchBatch c serviceName batch) = None \<and>
        Fprintf Stderr ''Application failed to start after update\<newline>'' []
          \<in> set (fst (handleWatchBatch c serviceName batch)))"
proof (cases "\<exists>e\<in>set batch. action e = WatchActionRebuild")
  case True
  from split_first_rebuild[OF this] obtain pre r post where
    b: "batch = pre @ r # post" and p: "\<forall>e\<in>set pre. action e \<noteq> WatchActionRebuild"
    and r: "action r = WatchActionRebuild" by auto
  have "handleWatchBatch c serviceName batch = handleWatchBatchLoop c serviceName [r] []"
    unfolding handleWatchBatch_def b by (rule loop_first_rebuild[OF p r])
  with True r show ?thesis by (auto split: option.splits)
next
  case False
  then have nr: "\<forall>e\<in>set batch. action e \<noteq> WatchActionRebuild" by simp
  have "handleWatchBatch c serviceName batch =
          handleWatchBatchLoop c serviceName [] (map mapping batch)"
    unfolding handleWatchBatch_def using loop_no_rebuild[OF nr, of c serviceName "[]"] by simp
  with False show ?thesis by (auto split: sum.splits)
qed

theorem dispatch_error_iff_witness:
  "snd (handleWatchBatch failing ''web'' [syncEvent, syncEvent]) \<noteq> None
   \<and> snd (handleWatchBatch failing ''web'' [syncEvent, rebuildEvent]) = None
   \<and> Fprintf Stderr ''Application failed to start after update\<newline>'' []
        \<in> set (fst (handleWatchBatch failing ''web'' [syncEvent, rebuildEvent]))"
  using dispatch_error_iff [of failing "''web''" "[syncEvent, syncEvent]"]
    dispatch_error_iff [of failing "''web''" "[syncEvent, rebuildEvent]"]
  by (simp add: syncEvent_def rebuildEvent_def failing_def WatchActionRebuild_def)

section \<open>The bind-mount test\<close>

lemma HasPrefix_prefix: "strings_HasPrefix s pre = prefix pre s"
  by (auto simp: strings_HasPrefix_def prefix_def) (metis append_take_drop_id)

lemma check_iff:
  "checkIfPathAlreadyBindMounted p volumes =
     (\<exists>v\<in>set volumes. Bind v \<noteq> None \<and> prefix (Source v) p)"
  by (induction volumes) (auto simp: HasPrefix_prefix)

lemma watchPaths_set:
  "set (snd (watchPaths triggers volumes fx acc)) =
     set acc \<union> {Path t |t. t \<in> set triggers \<and> \<not> checkIfPathAlreadyBindMounted (Path t) volumes}"
  by (induction triggers arbitrary: fx acc) auto

text \<open>
  C10. The bind-mount test is a test on characters: as soon as the source of a volume
  with a bind section is a string prefix of the trigger's path, the path is reported as
  bind mounted and is left out of the watched paths, whether or not the source is a
  parent directory of it. Source \<open>/a/b\<close> excludes the trigger path \<open>/a/bc\<close>.
\<close>

theorem bind_mount_raw_prefix:
  assumes "v \<in> set volumes" and "Bind v \<noteq> None" and "prefix (Source v) (Path trigger)"
  shows "checkIfPathAlreadyBindMounted (Path trigger) volumes \<and>
         Path trigger \<notin> set (snd (watchPaths triggers volumes fx []))"
proof -
  have c: "checkIfPathAlreadyBindMounted (Path trigger) volumes"
    using assms by (auto simp: check_iff)
  moreover have "Path trigger \<notin> set (snd (watchPaths triggers volumes fx []))"
    unfolding watchPaths_set using c by auto
  ultimately show ?thesis by simp
qed

theorem bind_mount_raw_prefix_witness:
  "''/a/bc'' \<noteq> ''/a/b'' \<and> \<not> prefix ''/a/b/'' ''/a/bc''
   \<and> checkIfPathAlreadyBindMounted ''/a/bc''
       [\<lparr>Source = ''/a/b'', Bind = Some \<lparr>CreateHostPath = True\<rparr>\<rparr>]
   \<and> ''/a/bc'' \<notin> set (snd (watchPaths
       [\<lparr>Path = ''/a/bc'', Action = ''sync'', Target = ''/app'', Ignore = []\<rparr>]
       [\<lparr>Source = ''/a/b'', Bind = Some \<lparr>CreateHostPath = True\<rparr>\<rparr>] ([] :: unit effect list) []))"
  using bind_mount_raw_prefix [of "\<lparr>Source = ''/a/b'', Bind = Some \<lparr>CreateHostPath = True\<rparr>\<rparr>"
      "[\<lparr>Source = ''/a/b'', Bind = Some \<lparr>CreateHostPath = True\<rparr>\<rparr>]"
      "\<lparr>Path = ''/a/bc'', Action = ''sync'', Target = ''/app'', Ignore = []\<rparr>"
      "[\<lparr>Path = ''/a/bc'', Action = ''sync'', Target = ''/app'', Ignore = []\<rparr>]" "[]"]
  by simp

section \<open>The path functions on the library's own examples\<close>

lemmas unix_eval = filepath_Clean_def unix_def FromSlash_def VolumeName_def sepAt_def byte_def
  elements_def

lemmas windows_eval = filepath_Clean_def windows_def FromSlash_def VolumeName_def sepAt_def
  byte_def elements_def backslash_def isLetter_def toUpper_def

lemma clean_examples:
  "path_Clean ''/a/b/../c/./d//e/'' = ''/a/c/d/e''"
  "path_Clean ''abc/../../././../def'' = ''../../def''"
  "path_Clean ''/abc/def/../../..'' = ''/''"
  "path_Clean [] = ''.''"
  by (simp_all add: path_Clean_def byte_def backtrack.simps)

lemma rel_examples:
  "filepath_Rel unix ''/a/b'' ''/a/c/d'' = Inr ''../c/d''"
  "filepath_Rel unix ''/a/b'' ''/a/b'' = Inr ''.''"
  "filepath_Rel unix ''/'' ''/a'' = Inr ''a''"
  by (simp_all add: filepath_Rel_def unix_eval)

section \<open>The event classifier\<close>

lemma example_rel: "filepath_Rel unix ''/src'' ''/src/pkg/file.go'' = Inr ''pkg/file.go''"
  by (simp add: filepath_Rel_def unix_eval)

lemma example_join: "path_Join [''/app'', ''pkg/file.go''] = ''/app/pkg/file.go''"
  by (simp add: path_Join_def path_Clean_def byte_def)

lemma example_child: "IsChild unix ''/src'' ''/src/pkg/file.go''"
  by (simp add: IsChild_def unix_eval)

text \<open>
  C5, as the code has it. When the ignore predicate returns an error for a host path
  inside the trigger's path, \<open>maybeFileEvent\<close> logs one warning and returns nil: the
  change is dropped, it is not classified as if it were not ignored.
\<close>

theorem ignore_error_discards:
  assumes "isChild (Path trigger) hostPath" and "ignore hostPath = Inl err"
  shows "maybeFileEvent h isChild trigger hostPath ignore =
           ([Logf Warn ''error ignore matching %q: %v'' [S hostPath, E err]], None)"
  using assms by (simp add: maybeFileEvent_def)

theorem ignore_error_discards_witness:
  "IsChild unix (Path srcTrigger) ''/src/pkg/file.go'' \<and>
   (maybeFileEvent unix (IsChild unix) srcTrigger ''/src/pkg/file.go''
      (\<lambda>p. Inl (External ''bad pattern''))
      :: unit effect list \<times> fileEvent option) =
     ([Logf Warn ''error ignore matching %q: %v''
         [S ''/src/pkg/file.go'', E (External ''bad pattern'')]], None)"
  using ignore_error_discards [of "IsChild unix" srcTrigger "''/src/pkg/file.go''"
      "\<lambda>p. Inl (External ''bad pattern'')" "External ''bad pattern''"]
  by (simp add: srcTrigger_def example_child)

text \<open>
  The claim as it is written fails: for the same trigger and path, a predicate that
  answers "not ignored" yields an event, and a predicate that fails yields none.
\<close>

theorem ignore_error_counterexample:
  "IsChild unix (Path srcTrigger) ''/src/pkg/file.go'' \<and>
   snd (maybeFileEvent unix (IsChild unix) srcTrigger ''/src/pkg/file.go'' (\<lambda>p. Inr False)
      :: unit effect list \<times> fileEvent option) \<noteq> None \<and>
   snd (maybeFileEvent unix (IsChild unix) srcTrigger ''/src/pkg/file.go''
          (\<lambda>p. Inl (External ''bad pattern''))
      :: unit effect list \<times> fileEvent option) = None"
  by (simp add: maybeFileEvent_def srcTrigger_def example_child example_rel)

text \<open>
  What the classifier emits for a host path inside the trigger's path that is not
  ignored, on any host: with no target the container path is empty; with a target it is
  \<open>path.Join\<close> of the target and of what the host's \<open>filepath.Rel\<close> returns, as
  returned.
\<close>

lemma classifier_emits:
  assumes "isChild (Path trigger) hostPath" and "ignore hostPath = Inr False"
  shows "Target trigger = [] \<Longrightarrow>
           maybeFileEvent h isChild trigger hostPath ignore =
             ([], Some \<lparr>mapping = \<lparr>HostPath = hostPath, ContainerPath = []\<rparr>,
                        action = Action trigger\<rparr>)"
    and "Target trigger \<noteq> [] \<Longrightarrow> filepath_Rel h (Path trigger) hostPath = Inr rel \<Longrightarrow>
           maybeFileEvent h isChild trigger hostPath ignore =
             ([], Some \<lparr>mapping = \<lparr>HostPath = hostPath,
                                    ContainerPath = path_Join [Target trigger, rel]\<rparr>,
                        action = Action trigger\<rparr>)"
  using assms by (simp_all add: maybeFileEvent_def)

text \<open>On a Unix host the example of the spec comes out with slashes only.\<close>

lemma unix_container_path:
  "(maybeFileEvent unix (IsChild unix) srcTrigger ''/src/pkg/file.go'' (\<lambda>p. Inr False)
      :: unit effect list \<times> fileEvent option) =
     ([], Some \<lparr>mapping = \<lparr>HostPath = ''/src/pkg/file.go'',
                            ContainerPath = ''/app/pkg/file.go''\<rparr>,
                action = ''sync''\<rparr>)"
  by (simp add: maybeFileEvent_def srcTrigger_def example_rel example_join example_child)

lemma unix_no_target:
  "(maybeFileEvent unix (IsChild unix) (srcTrigger\<lparr>Target := []\<rparr>) ''/src/pkg/file.go''
      (\<lambda>p. Inr False) :: unit effect list \<times> fileEvent option) =
     ([], Some \<lparr>mapping = \<lparr>HostPath = ''/src/pkg/file.go'', ContainerPath = []\<rparr>,
                action = ''sync''\<rparr>)"
  by (simp add: maybeFileEvent_def srcTrigger_def example_child)

lemma windows_rel: "filepath_Rel windows windowsSrc windowsFile = Inr (''pkg'' @ [backslash] @ ''file.go'')"
  by (simp add: filepath_Rel_def windows_eval windowsSrc_def windowsFile_def)

lemma windows_child: "IsChild windows windowsSrc windowsFile"
  by (simp add: IsChild_def windows_eval windowsSrc_def windowsFile_def)

lemma windows_join:
  "path_Join [''/app'', ''pkg'' @ [backslash] @ ''file.go''] = ''/app/pkg'' @ [backslash] @ ''file.go''"
  by (simp add: path_Join_def path_Clean_def byte_def backslash_def)

text \<open>
  C9, at the failing input. On a Windows host, for the trigger with path \<open>C:\src\<close> and
  target \<open>/app\<close> and a change at \<open>C:\src\pkg\file.go\<close>, the container path of the
  event is \<open>/app/pkg\file.go\<close>: the relative path keeps the backslash of the host, which is
  no separator in the container.
\<close>

theorem container_path_keeps_backslash:
  "IsChild windows (Path windowsTrigger) windowsFile \<and>
   (maybeFileEvent windows (IsChild windows) windowsTrigger windowsFile (\<lambda>p. Inr False)
      :: unit effect list \<times> fileEvent option) =
     ([], Some \<lparr>mapping = \<lparr>HostPath = windowsFile,
                            ContainerPath = ''/app/pkg'' @ [backslash] @ ''file.go''\<rparr>,
                action = ''sync''\<rparr>) \<and>
   ''/app/pkg'' @ [backslash] @ ''file.go'' \<noteq> ''/app/pkg/file.go''"
proof -
  have child: "IsChild windows (Path windowsTrigger) windowsFile"
    by (simp add: windowsTrigger_def windows_child)
  have rel: "filepath_Rel windows (Path windowsTrigger) windowsFile =
               Inr (''pkg'' @ [backslash] @ ''file.go'')"
    by (simp add: windowsTrigger_def windows_rel)
  have run: "(maybeFileEvent windows (IsChild windows) windowsTrigger windowsFile (\<lambda>p. Inr False)
      :: unit effect list \<times> fileEvent option) =
     ([], Some \<lparr>mapping = \<lparr>HostPath = windowsFile,
                            ContainerPath = ''/app/pkg'' @ [backslash] @ ''file.go''\<rparr>,
                action = ''sync''\<rparr>)"
    using child rel windows_join by (simp add: maybeFileEvent_def windowsTrigger_def)
  have differ: "''/app/pkg'' @ [backslash] @ ''file.go'' \<noteq> ''/app/pkg/file.go''"
    by (simp add: backslash_def)
  from child run differ show ?thesis by blast
qed

section \<open>The trigger resolver\<close>

lemma filepath_Clean_nonempty: "filepath_Clean unix p \<noteq> []"
  by (auto simp: filepath_Clean_def unix_def FromSlash_def Let_def)

text \<open>The check for an empty path comes after \<open>Clean\<close> and can never fire.\<close>

lemma resolveTriggers_never_MustDefinePath:
  "resolveTriggers w service baseDir triggers \<noteq> Inl MustDefinePath"
  by (induction triggers)
    (auto simp: Let_def filepath_Clean_nonempty split: sum.splits)

lemma resolveTriggers_rebuild:
  "SBuild service = None \<Longrightarrow> \<exists>t\<in>set triggers. Action t = WatchActionRebuild \<Longrightarrow>
   resolveTriggers w service baseDir triggers = Inl (RebuildWithoutBuild (Name service))"
proof (induction triggers)
  case Nil
  then show ?case by simp
next
  case (Cons t ts)
  show ?case
  proof (cases "Action t = WatchActionRebuild")
    case True
    with Cons.prems(1) show ?thesis
      by (simp add: Let_def filepath_Clean_nonempty split: sum.splits)
  next
    case False
    with Cons have "resolveTriggers w service baseDir ts = Inl (RebuildWithoutBuild (Name service))"
      by auto
    with False show ?thesis
      by (simp add: Let_def filepath_Clean_nonempty split: sum.splits)
  qed
qed

text \<open>
  C7, at the failing input. A watch rule whose path is the empty string is not rejected:
  with working directory \<open>/proj\<close> the rule is accepted and its path becomes \<open>/proj\<close>.
\<close>

theorem empty_path_accepted:
  "loadDevelopmentConfig calm emptyPathService
     \<lparr>WorkingDir = ''/proj'', Services = [emptyPathService]\<rparr> =
   Inr (Some \<lparr>Watch = [\<lparr>Path = ''/proj'', Action = ''sync'', Target = ''/app'', Ignore = []\<rparr>]\<rparr>)"
  by (simp add: loadDevelopmentConfig_def calm_def emptyPathService_def filepath_IsAbs_def
      strings_HasPrefix_def unix_eval WatchActionRebuild_def)

section \<open>The orchestrator\<close>

lemma watchService_returns:
  "watchService w services project service watching fx = (fx', Inl out) \<Longrightarrow> \<exists>e. out = Failed e"
  by (auto simp: watchService_def split: sum.splits option.splits prod.splits if_splits)

lemma watchPaths_Go:
  "(Go n ts \<in> set (fst (watchPaths triggers volumes fx acc))) = (Go n ts \<in> set fx)"
  by (induction triggers arbitrary: fx acc) auto

lemma watchPaths_GoD:
  "watchPaths triggers volumes fx acc = (fx', ps) \<Longrightarrow> Go n ts \<in> set fx' \<Longrightarrow> Go n ts \<in> set fx"
  using watchPaths_Go[of n ts triggers volumes fx acc] by simp

text \<open>A loop launched by the body is the loop of the service the body looks at.\<close>

lemma watchService_Go:
  "watchService w services project s watching fx = (fx', r) \<Longrightarrow> Go n ts \<in> set fx' \<Longrightarrow>
   Go n ts \<in> set fx \<or> n = Name s"
  by (auto simp: watchService_def dest: watchPaths_GoD
      split: sum.splits option.splits prod.splits if_splits)

lemma watchServices_Go:
  "Go n ts \<in> set (fst (watchServices w services project visited rest watching fx)) \<Longrightarrow>
   Go n ts \<in> set fx \<or> n \<in> Name ` set rest"
proof (induction rest arbitrary: visited watching fx)
  case Nil
  then show ?case by (simp split: if_splits)
next
  case (Cons a rest)
  obtain fx' r where r: "watchService w services project a watching fx = (fx', r)"
    by (cases "watchService w services project a watching fx")
  show ?case
  proof (cases r)
    case (Inl out)
    with r Cons.prems watchService_Go[OF r, of n ts] show ?thesis by auto
  next
    case (Inr p)
    obtain a' watching' where p: "p = (a', watching')" by (cases p)
    with r Inr Cons.prems have
      "Go n ts \<in> set (fst (watchServices w services project (visited @ [a']) rest watching' fx'))"
      by simp
    from Cons.IH[OF this] watchService_Go[OF r, of n ts] show ?thesis by auto
  qed
qed

lemma loadDevelopmentConfig_bad:
  assumes "SBuild s = None" and "XDevelop s = Some y" and "decode w y = Inr config"
    and "\<exists>t\<in>set (Watch config). Action t = WatchActionRebuild"
  shows "loadDevelopmentConfig w s project =
           (case evalSymlinks w (WorkingDir project) of
              Inl err \<Rightarrow> Inl (ResolvingSymlink (WorkingDir project) err)
            | Inr baseDir \<Rightarrow> Inl (RebuildWithoutBuild (Name s)))"
  using assms resolveTriggers_rebuild[of s "Watch config" w]
  by (auto simp: loadDevelopmentConfig_def split: sum.splits)

lemma watchService_bad:
  assumes "SBuild s = None" and "XDevelop s = Some y" and "decode w y = Inr config"
    and "\<exists>t\<in>set (Watch config). Action t = WatchActionRebuild"
  shows "watchService w services project s watching fx =
           (fx, Inl (Failed (case evalSymlinks w (WorkingDir project) of
              Inl err \<Rightarrow> ResolvingSymlink (WorkingDir project) err
            | Inr baseDir \<Rightarrow> RebuildWithoutBuild (Name s))))"
  using loadDevelopmentConfig_bad[OF assms, of project]
  by (auto simp: watchService_def split: sum.splits)

lemma watchServices_bad:
  assumes "SBuild s = None" and "XDevelop s = Some y" and "decode w y = Inr config"
    and "\<exists>t\<in>set (Watch config). Action t = WatchActionRebuild"
  shows "fst (watchServices w services project visited (pre @ s # post) watching fx) =
           fst (watchServices w services project visited pre watching fx)
         \<and> (\<exists>e. snd (watchServices w services project visited (pre @ s # post) watching fx)
                = Failed e)"
proof (induction pre arbitrary: visited watching fx)
  case Nil
  show ?case using watchService_bad[OF assms, of services project watching fx]
    by (simp split: if_splits)
next
  case (Cons a pre)
  obtain fx' r where r: "watchService w services project a watching fx = (fx', r)"
    by (cases "watchService w services project a watching fx")
  show ?case
  proof (cases r)
    case (Inl out)
    with r watchService_returns[of w services project a watching fx fx' out] show ?thesis
      by auto
  next
    case (Inr p)
    with r Cons.IH show ?thesis by (cases p) simp
  qed
qed

text \<open>
  C6, as the code has it. Let \<open>s\<close> be a service that \<open>Watch\<close> visits, with a rebuild
  trigger and no build section. Then \<open>Watch\<close> returns an error, and everything it has
  done up to then is what its loop does on the services before \<open>s\<close>: no watcher is
  created or started for \<open>s\<close> or for a service after it, and every watch loop that
  was launched belongs to a service before \<open>s\<close>. If \<open>s\<close> comes first, nothing
  has been done at all and the error is the configuration error of \<open>s\<close> (or the failure
  to resolve the working directory).
\<close>

theorem rebuild_without_build_fails:
  assumes "forServices w project services = Inr project'"
    and "Services project' = pre @ s # post"
    and "SBuild s = None" and "XDevelop s = Some y" and "decode w y = Inr config"
    and "\<exists>t\<in>set (Watch config). Action t = WatchActionRebuild"
  shows "(\<exists>e. snd (composeService_Watch w project services) = Failed e)
         \<and> fst (composeService_Watch w project services) =
             fst (watchServices w services project' [] pre False [])
         \<and> (\<forall>n ts. Go n ts \<in> set (fst (composeService_Watch w project services)) \<longrightarrow>
                n \<in> Name ` set pre)
         \<and> (pre = [] \<longrightarrow>
              composeService_Watch w project services =
                ([], Failed (case evalSymlinks w (WorkingDir project') of
                               Inl err \<Rightarrow> ResolvingSymlink (WorkingDir project') err
                             | Inr baseDir \<Rightarrow> RebuildWithoutBuild (Name s))))"
proof -
  have first: "pre = [] \<longrightarrow>
          composeService_Watch w project services =
            ([], Failed (case evalSymlinks w (WorkingDir project') of
                           Inl err \<Rightarrow> ResolvingSymlink (WorkingDir project') err
                         | Inr baseDir \<Rightarrow> RebuildWithoutBuild (Name s)))"
    using watchService_bad[OF assms(3-6), of services project' False "[]"] assms(1,2)
    by (simp add: composeService_Watch_def)
  have run: "(\<exists>e. snd (composeService_Watch w project services) = Failed e)
         \<and> fst (composeService_Watch w project services) =
             fst (watchServices w services project' [] pre False [])"
    using watchServices_bad[OF assms(3-6), where services = services and project = project'
      and visited = "[]" and pre = pre and post = post and watching = False and fx = "[]"]
      assms(1,2)
    by (simp add: composeService_Watch_def)
  have "n \<in> Name ` set pre"
    if "Go n ts \<in> set (fst (composeService_Watch w project services))" for n ts
    using that run watchServices_Go[of n ts w services project' "[]" pre False "[]"] by simp
  with first run show ?thesis by blast
qed

theorem rebuild_without_build_fails_witness:
  "composeService_Watch calm \<lparr>WorkingDir = ''/proj'', Services = [badService, goodService]\<rparr> [] =
     ([], Failed (RebuildWithoutBuild ''api''))"
  using rebuild_without_build_fails [of calm
      "\<lparr>WorkingDir = ''/proj'', Services = [badService, goodService]\<rparr>" "[]"
      "\<lparr>WorkingDir = ''/proj'', Services = [badService, goodService]\<rparr>" "[]" badService
      "[goodService]"
      "\<lparr>Watch = [\<lparr>Path = ''/api'', Action = ''rebuild'', Target = [], Ignore = []\<rparr>]\<rparr>"
      "\<lparr>Watch = [\<lparr>Path = ''/api'', Action = ''rebuild'', Target = [], Ignore = []\<rparr>]\<rparr>"]
  by (simp add: calm_def badService_def WatchActionRebuild_def)

text \<open>
  The claim as it is written fails when a service that can be watched comes first: its
  watcher is created and started, and its loop is launched, before the error of the
  second service is found.
\<close>

theorem watcher_started_before_failure_counterexample:
  "composeService_Watch calm \<lparr>WorkingDir = ''/proj'', Services = [goodService, badService]\<rparr> [] =
     ([NewWatcher [''/src''], Fprintf Stdinfo ''watching %s\<newline>'' [L [''/src'']],
       WatcherStart [''/src''], Go ''web'' [srcTrigger]],
      Failed (RebuildWithoutBuild ''api''))"
  by (simp add: composeService_Watch_def watchService_def loadDevelopmentConfig_def calm_def
      goodService_def badService_def srcTrigger_def filepath_IsAbs_def strings_HasPrefix_def
      unix_eval WatchActionRebuild_def)

section \<open>The debounce batcher\<close>

lemma returned_any: "debounceLoop delay Returned t out rest = Some (out, Returned)"
  by (cases rest) simp_all

lemma debounceLoop_append:
  "debounceLoop delay m t out pre = Some (out', m') \<Longrightarrow>
   \<exists>due' buffered'. \<forall>rest.
      debounceLoop delay m t out (pre @ rest) = debounceLoop delay m' (due', buffered') out' rest"
proof (induction pre arbitrary: m t out)
  case Nil
  then have "out = out'" and "m = m'" by simp_all
  then show ?case
    by - (rule exI[where x = "fst t"], rule exI[where x = "snd t"], simp)
next
  case (Cons step pre)
  obtain at w where step: "step = (at, w)" by (cases step)
  show ?case
  proof (cases m)
    case Returned
    with Cons.prems show ?thesis by (simp add: returned_any)
  next
    case (InSend events nxt)
    with Cons.prems step show ?thesis
      by (cases w) (auto intro: Cons.IH)
  next
    case (InSelect seen)
    with Cons.prems step show ?thesis
      by (cases w) (auto simp: returned_any intro: Cons.IH split: if_splits list.splits)
  qed
qed

text \<open>
  C1, as the code has it. Take any run after which the goroutine waits in \<open>select\<close>,
  with \<open>out\<close> received so far and \<open>seen\<close> pending. If the cancellation case is taken
  next, nothing more is sent and the channel is closed: the pending events are dropped.
  If instead the closed input is taken next and \<open>seen\<close> is not empty, the pending events
  are sent as one last batch, and the channel is closed once that batch has been
  received. Take any run after which the goroutine is blocked in the send of a batch:
  it cannot take the cancellation case then, and takes it only after the batch has been
  received.
\<close>

theorem cancel_drops_pending:
  "(batchDebounceEvents delay created pre = Some (out, InSelect seen) \<longrightarrow>
      batchDebounceEvents delay created (pre @ (at, CtxDone) # rest) = Some (out, Returned)
      \<and> (seen \<noteq> [] \<and> rangeOrder seen ks \<longrightarrow>
           batchDebounceEvents delay created
             (pre @ (at, InputClosed ks) # (at', OutReceived) # rest) =
           Some (out @ [sort_key (stamp seen) ks], Returned)))
   \<and> (batchDebounceEvents delay created pre = Some (out, InSend events next) \<longrightarrow>
        batchDebounceEvents delay created (pre @ [(at, CtxDone)]) = None
        \<and> batchDebounceEvents delay created (pre @ [(at, OutReceived), (at', CtxDone)]) =
            Some (out @ [events], Returned))"
proof (cases "delay \<le> 0")
  case True
  then show ?thesis by (simp add: batchDebounceEvents_def)
next
  case False
  show ?thesis
  proof (intro conjI impI)
    assume a: "batchDebounceEvents delay created pre = Some (out, InSelect seen)"
    with False have "debounceLoop delay (InSelect []) (created + delay, False) [] pre
        = Some (out, InSelect seen)" by (simp add: batchDebounceEvents_def)
    from debounceLoop_append[OF this] obtain t' where
      t': "\<And>rest. debounceLoop delay (InSelect []) (created + delay, False) [] (pre @ rest)
             = debounceLoop delay (InSelect seen) t' out rest" by auto
    show "batchDebounceEvents delay created (pre @ (at, CtxDone) # rest) = Some (out, Returned)"
      using False t' by (simp add: batchDebounceEvents_def)
    show "batchDebounceEvents delay created
             (pre @ (at, InputClosed ks) # (at', OutReceived) # rest) =
           Some (out @ [sort_key (stamp seen) ks], Returned)"
      if "seen \<noteq> [] \<and> rangeOrder seen ks"
      using False t' that by (simp add: batchDebounceEvents_def flushEvents_def returned_any)
  next
    assume a: "batchDebounceEvents delay created pre = Some (out, InSend events next)"
    with False have "debounceLoop delay (InSelect []) (created + delay, False) [] pre
        = Some (out, InSend events next)" by (simp add: batchDebounceEvents_def)
    from debounceLoop_append[OF this] obtain t' where
      t': "\<And>rest. debounceLoop delay (InSelect []) (created + delay, False) [] (pre @ rest)
             = debounceLoop delay (InSend events next) t' out rest" by auto
    show "batchDebounceEvents delay created (pre @ [(at, CtxDone)]) = None"
      using False t' by (simp add: batchDebounceEvents_def)
    show "batchDebounceEvents delay created (pre @ [(at, OutReceived), (at', CtxDone)]) =
            Some (out @ [events], Returned)"
      using False t' by (simp add: batchDebounceEvents_def returned_any split: option.splits)
  qed
qed

theorem cancel_drops_pending_witness:
  "batchDebounceEvents quietPeriod 0 [(100, Input syncEvent 1)] = Some ([], InSelect [(syncEvent, 1)]) \<and>
   batchDebounceEvents quietPeriod 0 [(100, Input syncEvent 1), (200, CtxDone)] = Some ([], Returned) \<and>
   batchDebounceEvents quietPeriod 0
     [(100, Input syncEvent 1), (200, InputClosed [syncEvent]), (300, OutReceived)] =
     Some ([[syncEvent]], Returned) \<and>
   batchDebounceEvents quietPeriod 0 [(100, Input syncEvent 1), (100 + quietPeriod, TickerChan [syncEvent])] =
     Some ([], InSend [syncEvent] (Some [])) \<and>
   batchDebounceEvents quietPeriod 0
     [(100, Input syncEvent 1), (100 + quietPeriod, TickerChan [syncEvent]), (200 + quietPeriod, CtxDone)] = None"
proof -
  have h: "batchDebounceEvents quietPeriod 0 [(100, Input syncEvent 1)] = Some ([], InSelect [(syncEvent, 1)])"
    by (simp add: batchDebounceEvents_def quietPeriod_def)
  have s: "batchDebounceEvents quietPeriod 0
             [(100, Input syncEvent 1), (100 + quietPeriod, TickerChan [syncEvent])] =
           Some ([], InSend [syncEvent] (Some []))"
    by (simp add: batchDebounceEvents_def quietPeriod_def elapse_def rangeOrder_def flushEvents_def)
  from cancel_drops_pending [of quietPeriod 0 "[(100, Input syncEvent 1)]" "[]"
      "[(syncEvent, 1)]" 200 "[]" "[syncEvent]" 300 "[syncEvent]" "Some []"]
    cancel_drops_pending [of quietPeriod 0
      "[(100, Input syncEvent 1), (100 + quietPeriod, TickerChan [syncEvent])]" "[]"
      "[]" "200 + quietPeriod" "[]" "[]" 0 "[syncEvent]" "Some []"]
    h s
  show ?thesis by (simp add: rangeOrder_def)
qed

text \<open>
  The claim as it is written fails: one event is pending when the cancellation case is
  taken, and the batcher closes its channel without having sent any batch.
\<close>

theorem cancel_flush_counterexample:
  "batchDebounceEvents quietPeriod 0 [(100, Input rebuildEvent 7)] =
     Some ([], InSelect [(rebuildEvent, 7)]) \<and>
   batchDebounceEvents quietPeriod 0 [(100, Input rebuildEvent 7), (200, CtxDone)] = Some ([], Returned)"
  by (simp add: batchDebounceEvents_def quietPeriod_def)




subsection \<open>A burst of equal events\<close>

lemma no_input_after_quiet:
  "burst delay e (Some p) run \<Longrightarrow> \<forall>at\<in>set (map fst run). p + delay \<le> at \<Longrightarrow>
   \<forall>w\<in>set (map snd run). \<forall>e' now. w \<noteq> Input e' now"
proof (induction run)
  case Nil
  then show ?case by simp
next
  case (Cons a run)
  obtain at w where a: "a = (at, w)" by (cases a)
  with Cons show ?case by (cases w) auto
qed

lemma idle_without_input:
  "debounceLoop delay (InSelect []) t out run = Some (out', m') \<Longrightarrow> burst delay e previous run \<Longrightarrow>
   \<forall>w\<in>set (map snd run). \<forall>e' now. w \<noteq> Input e' now \<Longrightarrow>
   out' = out \<and> m' = InSelect []"
proof (induction run arbitrary: t)
  case Nil
  then show ?case by simp
next
  case (Cons a run)
  obtain at w where a: "a = (at, w)" by (cases a)
  with Cons.prems Cons.IH show ?case
    by (cases w) (auto simp: flushEvents_def split: if_splits)
qed

lemma sending_without_input:
  "debounceLoop delay (InSend [e] (Some [])) t out run = Some (out', InSelect []) \<Longrightarrow>
   burst delay e previous run \<Longrightarrow> \<forall>w\<in>set (map snd run). \<forall>e' now. w \<noteq> Input e' now \<Longrightarrow>
   out' = out @ [[e]]"
proof (cases run)
  case Nil
  assume "debounceLoop delay (InSend [e] (Some [])) t out run = Some (out', InSelect [])"
  with Nil show ?thesis by simp
next
  case (Cons a rest)
  assume r: "debounceLoop delay (InSend [e] (Some [])) t out run = Some (out', InSelect [])"
    and b: "burst delay e previous run"
    and n: "\<forall>w\<in>set (map snd run). \<forall>e' now. w \<noteq> Input e' now"
  obtain at w where a: "a = (at, w)" by (cases a)
  show ?thesis
  proof (cases w)
    case OutReceived
    with r Cons a have
      "debounceLoop delay (InSelect []) (elapse delay t at) (out @ [[e]]) rest = Some (out', InSelect [])"
      by simp
    from idle_without_input[OF this, of e previous] b n Cons a OutReceived show ?thesis by simp
  qed (use r Cons a in simp_all)
qed

lemma pending_flushed_once:
  "debounceLoop delay (InSelect [(e, stamp0)]) (p + delay, False) out run = Some (out', InSelect []) \<Longrightarrow>
   sorted (map fst run) \<Longrightarrow> \<forall>at\<in>set (map fst run). p \<le> at \<Longrightarrow> burst delay e (Some p) run \<Longrightarrow>
   out' = out @ [[e]]"
proof (induction run arbitrary: p stamp0)
  case Nil
  then show ?case by simp
next
  case (Cons a run)
  obtain at w where a: "a = (at, w)" by (cases a)
  show ?case
  proof (cases w)
    case (Input e' now)
    with Cons.prems a have e: "e' = e" and gap: "at < p + delay"
      and so: "sorted (map fst run)" and lo: "\<forall>x\<in>set (map fst run). at \<le> x"
      and bu: "burst delay e (Some at) run"
      by auto
    from gap have "elapse delay (p + delay, False) at = (p + delay, False)"
      by (simp add: elapse_def)
    with Cons.prems(1) a Input e have
      "debounceLoop delay (InSelect [(e, now)]) (at + delay, False) out run = Some (out', InSelect [])"
      by simp
    from Cons.IH[OF this so lo bu] show ?thesis .
  next
    case (TickerChan ks)
    from Cons.prems(1) a TickerChan have fired: "snd (elapse delay (p + delay, False) at)"
      and ks: "ks = [e]"
      by (auto simp: rangeOrder_def split: if_splits)
    from fired have due: "p + delay \<le> at" by (simp add: elapse_def split: if_splits)
    from Cons.prems a TickerChan have lo: "\<forall>x\<in>set (map fst run). at \<le> x"
      and bu: "burst delay e (Some p) run" by auto
    from lo due have "\<forall>x\<in>set (map fst run). p + delay \<le> x" by auto
    from no_input_after_quiet[OF bu this]
    have ni: "\<forall>w\<in>set (map snd run). \<forall>e' now. w \<noteq> Input e' now" .
    from Cons.prems(1) a TickerChan ks fired have
      "debounceLoop delay (InSend [e] (Some []))
         (fst (elapse delay (p + delay, False) at), False) out run = Some (out', InSelect [])"
      by (simp add: flushEvents_def rangeOrder_def)
    from sending_without_input[OF this bu ni] show ?thesis .
  next
    case CtxDone
    with Cons.prems a show ?thesis by simp
  next
    case (InputClosed ks)
    with Cons.prems a show ?thesis by simp
  next
    case OutReceived
    with Cons.prems a show ?thesis by simp
  qed
qed

text \<open>
  The burst comes out as one batch when no tick is left in the channel of the ticker:
  the goroutine waits with an empty map and an empty channel, the first event is received
  before the ticker is due, every further reception comes less than \<open>delay\<close> after
  the one before, and the run goes on until the map is empty again.
\<close>

lemma burst_without_stale_tick:
  assumes "debounceLoop delay (InSelect []) (due, False) [] ((a1, Input e now) # run)
             = Some (out, InSelect [])"
    and "a1 < due" and "sorted (a1 # map fst run)" and "burst delay e (Some a1) run"
  shows "out = [[e]]"
proof -
  from assms(2) have "elapse delay (due, False) a1 = (due, False)" by (simp add: elapse_def)
  with assms(1) have
    "debounceLoop delay (InSelect [(e, now)]) (a1 + delay, False) [] run = Some (out, InSelect [])"
    by simp
  from pending_flushed_once[OF this] assms(3,4) show ?thesis by simp
qed

text \<open>
  C4, at the failing input. The batcher is created at instant 0 with the quiet period of
  500 ms, so the ticker fires at 500 ms. The event is submitted 2000 ns later and received
  at once, when the goroutine has not yet taken that tick; \<open>t.Reset\<close> leaves the tick
  in the channel, so the goroutine takes it next and sends a first batch, which is
  received at once. The same event is submitted again 100 ns after the first time, is
  received at once, and is sent as a second batch one quiet period later. The two
  submissions are 100 ns apart and nothing follows them, yet two batches are sent.
\<close>

theorem burst_split_by_stale_tick:
  "burst quietPeriod syncEvent None
     [(quietPeriod + 2000, Input syncEvent 1), (quietPeriod + 2000, TickerChan [syncEvent]),
      (quietPeriod + 2000, OutReceived), (quietPeriod + 2100, Input syncEvent 2),
      (2 * quietPeriod + 2100, TickerChan [syncEvent]), (2 * quietPeriod + 2100, OutReceived)] \<and>
   batchDebounceEvents quietPeriod 0
     [(quietPeriod + 2000, Input syncEvent 1), (quietPeriod + 2000, TickerChan [syncEvent]),
      (quietPeriod + 2000, OutReceived), (quietPeriod + 2100, Input syncEvent 2),
      (2 * quietPeriod + 2100, TickerChan [syncEvent]), (2 * quietPeriod + 2100, OutReceived)] =
     Some ([[syncEvent], [syncEvent]], InSelect [])"
  by (simp add: batchDebounceEvents_def quietPeriod_def elapse_def flushEvents_def rangeOrder_def)

end
